theory Spec2Isabelle
  imports Complex_Main
begin

section \<open>Fitness-tracker workout calculations (homework.py)\<close>

text \<open>
  The module turns a sensor package (an activity code and an ordered list of numbers)
  into a training object, computes distance, mean speed and spent calories, and renders
  them in a fixed message.

  Numbers. The attributes are annotated \<^verbatim>\<open>float\<close>. They are modelled by exact
  rationals (\<^typ>\<open>rat\<close>): every finite binary floating-point number is a rational, and
  the source uses only \<^verbatim>\<open>+ - * / // **2\<close>, under which the rationals are closed.
  Rounding error, overflow to \<^verbatim>\<open>inf\<close> and \<^verbatim>\<open>nan\<close> are outside this model; what is
  inside it is the formulas, the order of evaluation and every exception the source can
  raise on finite numbers.

  Exceptions are values of \<open>py_error\<close>; a call that can raise returns
  \<open>py_error + 'a\<close>, with \<open>Inl\<close> for the exception.
\<close>

subsection \<open>Exceptions and the arithmetic operators that raise\<close>

datatype py_error =
    KeyError string
  | ZeroDivisionError
  | NotImplementedError string
  | TypeError
  | ValueError
  | Unmodelled

text \<open>Sequencing: the first exception raised wins, later code does not run.\<close>

definition and_then :: "py_error + 'a \<Rightarrow> ('a \<Rightarrow> py_error + 'b) \<Rightarrow> py_error + 'b" where
  "and_then r f = (case r of Inl e \<Rightarrow> Inl e | Inr v \<Rightarrow> f v)"

text \<open>Python's \<^verbatim>\<open>x / y\<close> and \<^verbatim>\<open>x // y\<close> on numbers: both raise on a zero divisor;
  floor division rounds the quotient toward minus infinity and stays a float.\<close>

definition truediv :: "rat \<Rightarrow> rat \<Rightarrow> py_error + rat" where
  "truediv x y = (if y = 0 then Inl ZeroDivisionError else Inr (x / y))"

definition floordiv :: "rat \<Rightarrow> rat \<Rightarrow> py_error + rat" where
  "floordiv x y = (if y = 0 then Inl ZeroDivisionError else Inr (of_int \<lfloor>x / y\<rfloor>))"

subsection \<open>The classes\<close>

text \<open>
  \<^verbatim>\<open>Training\<close> and its three subclasses, as one datatype whose constructor is the
  object's class and whose arguments are the attributes in the order of \<^verbatim>\<open>__init__\<close>.
\<close>

datatype training =
    Training (action: rat) (duration: rat) (weight: rat)
  | Running (action: rat) (duration: rat) (weight: rat)
  | SportsWalking (action: rat) (duration: rat) (weight: rat) (height: rat)
  | Swimming (action: rat) (duration: rat) (weight: rat) (length_pool: rat) (count_pool: rat)

text \<open>The dataclass \<^verbatim>\<open>InfoMessage\<close>; \<^verbatim>\<open>MESSAGE\<close> is its sixth field, with a default.\<close>

record InfoMessage =
  training_type :: string
  duration :: rat
  distance :: rat
  speed :: rat
  calories :: rat
  MESSAGE :: string

text \<open>\<^verbatim>\<open>type(self).__name__\<close>\<close>

fun class_name :: "training \<Rightarrow> string" where
  "class_name (Training _ _ _) = ''Training''"
| "class_name (Running _ _ _) = ''Running''"
| "class_name (SportsWalking _ _ _ _) = ''SportsWalking''"
| "class_name (Swimming _ _ _ _ _) = ''Swimming''"

text \<open>Class constants. \<^verbatim>\<open>LEN_STEP\<close> is looked up on the object's class:
  \<^verbatim>\<open>Swimming\<close> overrides it.\<close>

fun LEN_STEP :: "training \<Rightarrow> rat" where
  "LEN_STEP (Swimming _ _ _ _ _) = 1.38"
| "LEN_STEP _ = 0.65"

definition M_IN_KM :: rat where "M_IN_KM = 1000"
definition H_IN_MIN :: rat where "H_IN_MIN = 60"
definition RUN_COEF_CALORIE_1 :: rat where "RUN_COEF_CALORIE_1 = 18"
definition RUN_COEF_CALORIE_2 :: rat where "RUN_COEF_CALORIE_2 = 20"
definition SW_COEF_CALORIE_1 :: rat where "SW_COEF_CALORIE_1 = 0.035"
definition SW_COEF_CALORIE_2 :: rat where "SW_COEF_CALORIE_2 = 0.029"
definition SWIM_COEF_CALORIE_1 :: rat where "SWIM_COEF_CALORIE_1 = 1.1"
definition SWIM_COEF_CALORIE_2 :: rat where "SWIM_COEF_CALORIE_2 = 2"

subsection \<open>The methods\<close>

text \<open>\<^verbatim>\<open>get_distance\<close>: the divisor is the constant 1000, so nothing can raise.\<close>

definition get_distance :: "training \<Rightarrow> rat" where
  "get_distance t = training.action t * LEN_STEP t / M_IN_KM"

text \<open>\<^verbatim>\<open>get_mean_speed\<close>, overridden by \<^verbatim>\<open>Swimming\<close>.\<close>

fun get_mean_speed :: "training \<Rightarrow> py_error + rat" where
  "get_mean_speed (Swimming a d w lp cp) = truediv (lp * cp / M_IN_KM) d"
| "get_mean_speed t = truediv (get_distance t) (training.duration t)"

text \<open>\<^verbatim>\<open>get_spent_calories\<close>: the base class raises, each subclass overrides.\<close>

fun get_spent_calories :: "training \<Rightarrow> py_error + rat" where
  "get_spent_calories (Training a d w) =
     Inl (NotImplementedError ''Method is implemented in children'')"
| "get_spent_calories (Running a d w) =
     and_then (get_mean_speed (Running a d w)) (\<lambda>v.
       Inr ((RUN_COEF_CALORIE_1 * v - RUN_COEF_CALORIE_2)
            * w / M_IN_KM * d * H_IN_MIN))"
| "get_spent_calories (SportsWalking a d w h) =
     and_then (get_mean_speed (SportsWalking a d w h)) (\<lambda>v.
     and_then (floordiv (v ^ 2) h) (\<lambda>q.
       Inr ((SW_COEF_CALORIE_1 * w + q * SW_COEF_CALORIE_2 * w)
            * d * H_IN_MIN)))"
| "get_spent_calories (Swimming a d w lp cp) =
     and_then (get_mean_speed (Swimming a d w lp cp)) (\<lambda>v.
       Inr ((v + SWIM_COEF_CALORIE_1) * SWIM_COEF_CALORIE_2 * w))"

text \<open>The default of the dataclass field \<^verbatim>\<open>MESSAGE\<close>: the five adjacent string
  literals of the source, the Cyrillic letters as their UTF-8 bytes.\<close>

definition MESSAGE_default :: string where
  "MESSAGE_default =
     ([CHR 0xD0, CHR 0xA2, CHR 0xD0, CHR 0xB8, CHR 0xD0, CHR 0xBF] @ '' '' @
      [CHR 0xD1, CHR 0x82, CHR 0xD1, CHR 0x80, CHR 0xD0, CHR 0xB5, CHR 0xD0, CHR 0xBD,
       CHR 0xD0, CHR 0xB8, CHR 0xD1, CHR 0x80, CHR 0xD0, CHR 0xBE, CHR 0xD0, CHR 0xB2,
       CHR 0xD0, CHR 0xBA, CHR 0xD0, CHR 0xB8] @ '': {training_type}; '') @
     ([CHR 0xD0, CHR 0x94, CHR 0xD0, CHR 0xBB, CHR 0xD0, CHR 0xB8, CHR 0xD1, CHR 0x82,
       CHR 0xD0, CHR 0xB5, CHR 0xD0, CHR 0xBB, CHR 0xD1, CHR 0x8C, CHR 0xD0, CHR 0xBD,
       CHR 0xD0, CHR 0xBE, CHR 0xD1, CHR 0x81, CHR 0xD1, CHR 0x82, CHR 0xD1, CHR 0x8C] @
      '': {duration:.3f} '' @ [CHR 0xD1, CHR 0x87] @ ''.; '') @
     ([CHR 0xD0, CHR 0x94, CHR 0xD0, CHR 0xB8, CHR 0xD1, CHR 0x81, CHR 0xD1, CHR 0x82,
       CHR 0xD0, CHR 0xB0, CHR 0xD0, CHR 0xBD, CHR 0xD1, CHR 0x86, CHR 0xD0, CHR 0xB8,
       CHR 0xD1, CHR 0x8F] @
      '': {distance:.3f} '' @ [CHR 0xD0, CHR 0xBA, CHR 0xD0, CHR 0xBC] @ ''; '') @
     ([CHR 0xD0, CHR 0xA1, CHR 0xD1, CHR 0x80] @ ''. '' @
      [CHR 0xD1, CHR 0x81, CHR 0xD0, CHR 0xBA, CHR 0xD0, CHR 0xBE, CHR 0xD1, CHR 0x80,
       CHR 0xD0, CHR 0xBE, CHR 0xD1, CHR 0x81, CHR 0xD1, CHR 0x82, CHR 0xD1, CHR 0x8C] @
      '': {speed:.3f} '' @ [CHR 0xD0, CHR 0xBA, CHR 0xD0, CHR 0xBC] @ ''/'' @
      [CHR 0xD1, CHR 0x87] @ ''; '') @
     ([CHR 0xD0, CHR 0x9F, CHR 0xD0, CHR 0xBE, CHR 0xD1, CHR 0x82, CHR 0xD1, CHR 0x80,
       CHR 0xD0, CHR 0xB0, CHR 0xD1, CHR 0x87, CHR 0xD0, CHR 0xB5, CHR 0xD0, CHR 0xBD,
       CHR 0xD0, CHR 0xBE] @ '' '' @
      [CHR 0xD0, CHR 0xBA, CHR 0xD0, CHR 0xBA, CHR 0xD0, CHR 0xB0, CHR 0xD0, CHR 0xBB] @
      '': {calories:.3f}.'')"

text \<open>\<^verbatim>\<open>show_training_info\<close>: the constructor's arguments are evaluated left to
  right, so an exception of \<^verbatim>\<open>get_mean_speed\<close> comes before one of
  \<^verbatim>\<open>get_spent_calories\<close>; \<^verbatim>\<open>MESSAGE\<close> takes its default.\<close>

definition show_training_info :: "training \<Rightarrow> py_error + InfoMessage" where
  "show_training_info t =
     and_then (get_mean_speed t) (\<lambda>v.
     and_then (get_spent_calories t) (\<lambda>c.
       Inr \<lparr>training_type = class_name t,
            duration = training.duration t,
            distance = get_distance t,
            speed = v,
            calories = c,
            MESSAGE = MESSAGE_default\<rparr>))"

subsection \<open>The dispatcher\<close>

text \<open>
  Calling a class with \<^verbatim>\<open>*data\<close> binds the list to the positional parameters of
  \<^verbatim>\<open>__init__\<close>; Python raises \<^verbatim>\<open>TypeError\<close> when their numbers differ.
\<close>

fun new_Running :: "rat list \<Rightarrow> py_error + training" where
  "new_Running [a, d, w] = Inr (Running a d w)"
| "new_Running _ = Inl TypeError"

fun new_SportsWalking :: "rat list \<Rightarrow> py_error + training" where
  "new_SportsWalking [a, d, w, h] = Inr (SportsWalking a d w h)"
| "new_SportsWalking _ = Inl TypeError"

fun new_Swimming :: "rat list \<Rightarrow> py_error + training" where
  "new_Swimming [a, d, w, lp, cp] = Inr (Swimming a d w lp cp)"
| "new_Swimming _ = Inl TypeError"

definition training_dict :: "string \<rightharpoonup> (rat list \<Rightarrow> py_error + training)" where
  "training_dict = map_of
     [(''SWM'', new_Swimming),
      (''RUN'', new_Running),
      (''WLK'', new_SportsWalking)]"

text \<open>The text after the code in the \<^verbatim>\<open>KeyError\<close>'s message.\<close>

definition no_such_training :: string where
  "no_such_training =
     '' - '' @ [CHR 0xD0, CHR 0xA2, CHR 0xD0, CHR 0xB0, CHR 0xD0, CHR 0xBA, CHR 0xD0, CHR 0xBE,
               CHR 0xD0, CHR 0xB9] @ '' '' @
     [CHR 0xD1, CHR 0x82, CHR 0xD1, CHR 0x80, CHR 0xD0, CHR 0xB5, CHR 0xD0, CHR 0xBD,
      CHR 0xD0, CHR 0xB8, CHR 0xD1, CHR 0x80, CHR 0xD0, CHR 0xBE, CHR 0xD0, CHR 0xB2,
      CHR 0xD0, CHR 0xBA, CHR 0xD0, CHR 0xB8] @ '' '' @
     [CHR 0xD0, CHR 0xBD, CHR 0xD0, CHR 0xB5] @ '' '' @
     [CHR 0xD1, CHR 0x81, CHR 0xD1, CHR 0x83, CHR 0xD1, CHR 0x89, CHR 0xD0, CHR 0xB5,
      CHR 0xD1, CHR 0x81, CHR 0xD1, CHR 0x82, CHR 0xD0, CHR 0xB2, CHR 0xD1, CHR 0x83,
      CHR 0xD0, CHR 0xB5, CHR 0xD1, CHR 0x82]"

text \<open>\<^verbatim>\<open>read_package\<close>: the membership test, then the lookup and the call.\<close>

definition read_package :: "string \<Rightarrow> rat list \<Rightarrow> py_error + training" where
  "read_package workout_type data =
     (case training_dict workout_type of
        None \<Rightarrow> Inl (KeyError (workout_type @ no_such_training))
      | Some cls \<Rightarrow> cls data)"

subsection \<open>The message\<close>

text \<open>
  \<^verbatim>\<open>format(x, '.3f')\<close> on a number: fixed-point notation, the value rounded to three
  decimals (a tie goes to the even neighbour), a minus sign for a negative value (also
  when it rounds to zero), at least one digit before the point.
\<close>

definition round_half_even :: "rat \<Rightarrow> int" where
  "round_half_even y =
     (let n = \<lfloor>y\<rfloor>; r = y - of_int n
      in if r < 1 / 2 then n
         else if 1 / 2 < r then n + 1
         else if even n then n else n + 1)"

definition digit_char :: "nat \<Rightarrow> char" where
  "digit_char d = ''0123456789'' ! (d mod 10)"

fun str_nat :: "nat \<Rightarrow> string" where
  "str_nat n = (if n < 10 then [digit_char n] else str_nat (n div 10) @ [digit_char (n mod 10)])"

definition fmt3f :: "rat \<Rightarrow> string" where
  "fmt3f x =
     (let n = nat (round_half_even (\<bar>x\<bar> * 1000))
      in (if x < 0 then ''-'' else [])
         @ str_nat (n div 1000)
         @ ''.''
         @ [digit_char (n div 100 mod 10), digit_char (n div 10 mod 10), digit_char (n mod 10)])"

text \<open>
  \<^verbatim>\<open>str.format\<close> with keyword arguments, for the templates the module uses: literal
  text and replacement fields \<^verbatim>\<open>{name}\<close> and \<^verbatim>\<open>{name:.3f}\<close>. A missing name raises
  \<^verbatim>\<open>KeyError\<close>, an unclosed field and \<^verbatim>\<open>.3f\<close> on a string raise \<^verbatim>\<open>ValueError\<close>.
  Everything else of the format language (brace escapes, conversions, nested fields,
  other format specifications) is reported as \<open>Unmodelled\<close>.
\<close>

datatype pyval = Str string | Float rat

fun format_value :: "pyval \<Rightarrow> string \<Rightarrow> py_error + string" where
  "format_value (Str s) spec =
     (if spec = [] then Inr s else if spec = ''.3f'' then Inl ValueError else Inl Unmodelled)"
| "format_value (Float x) spec =
     (if spec = ''.3f'' then Inr (fmt3f x) else Inl Unmodelled)"

definition identifier_char :: "char \<Rightarrow> bool" where
  "identifier_char c = (c \<in> set ''abcdefghijklmnopqrstuvwxyzABCDEFGHIJKLMNOPQRSTUVWXYZ_'')"

definition format_field :: "(string \<times> pyval) list \<Rightarrow> string \<Rightarrow> py_error + string" where
  "format_field kwargs field =
     (let name = takeWhile (\<lambda>c. c \<noteq> CHR '':'') field;
          spec = drop 1 (dropWhile (\<lambda>c. c \<noteq> CHR '':'') field)
      in if name = [] \<or> \<not> list_all identifier_char name then Inl Unmodelled
         else (case map_of kwargs name of
                 None \<Rightarrow> Inl (KeyError name)
               | Some v \<Rightarrow> format_value v spec))"

fun scan_text :: "(string \<times> pyval) list \<Rightarrow> string \<Rightarrow> py_error + string"
  and scan_field :: "(string \<times> pyval) list \<Rightarrow> string \<Rightarrow> string \<Rightarrow> py_error + string" where
  "scan_text kwargs [] = Inr []"
| "scan_text kwargs (c # cs) =
     (if c = CHR ''{'' then scan_field kwargs [] cs
      else if c = CHR ''}'' then Inl Unmodelled
      else and_then (scan_text kwargs cs) (\<lambda>r. Inr (c # r)))"
| "scan_field kwargs field [] = Inl ValueError"
| "scan_field kwargs field (c # cs) =
     (if c = CHR ''}'' then
        and_then (format_field kwargs field) (\<lambda>s.
        and_then (scan_text kwargs cs) (\<lambda>r. Inr (s @ r)))
      else if c = CHR ''{'' then Inl Unmodelled
      else scan_field kwargs (field @ [c]) cs)"






section \<open>Properties\<close>

subsection \<open>Auxiliary facts\<close>

lemmas class_constants =
  M_IN_KM_def H_IN_MIN_def RUN_COEF_CALORIE_1_def RUN_COEF_CALORIE_2_def
  SW_COEF_CALORIE_1_def SW_COEF_CALORIE_2_def SWIM_COEF_CALORIE_1_def SWIM_COEF_CALORIE_2_def

lemma and_then_simps [simp]:
  "and_then (Inl e) f = Inl e"
  "and_then (Inr v) f = f v"
  by (simp_all add: and_then_def)

lemma read_package_RUN: "read_package ''RUN'' data = new_Running data"
  by (simp add: read_package_def training_dict_def)

lemma read_package_WLK: "read_package ''WLK'' data = new_SportsWalking data"
  by (simp add: read_package_def training_dict_def)

lemma read_package_SWM: "read_package ''SWM'' data = new_Swimming data"
  by (simp add: read_package_def training_dict_def)

lemma read_package_unknown:
  "code \<notin> {''SWM'', ''RUN'', ''WLK''} \<Longrightarrow>
   read_package code data = Inl (KeyError (code @ no_such_training))"
  by (simp add: read_package_def training_dict_def)

lemma new_Running_cases:
  "new_Running data =
     (if length data = 3 then Inr (Running (data ! 0) (data ! 1) (data ! 2))
      else Inl TypeError)"
  by (induction data rule: new_Running.induct) simp_all

lemma new_SportsWalking_cases:
  "new_SportsWalking data =
     (if length data = 4 then Inr (SportsWalking (data ! 0) (data ! 1) (data ! 2) (data ! 3))
      else Inl TypeError)"
  by (induction data rule: new_SportsWalking.induct) simp_all

lemma new_Swimming_cases:
  "new_Swimming data =
     (if length data = 5
      then Inr (Swimming (data ! 0) (data ! 1) (data ! 2) (data ! 3) (data ! 4))
      else Inl TypeError)"
  by (induction data rule: new_Swimming.induct) simp_all



subsection \<open>The sample packages\<close>

text \<open>
  C1, with the calories that the formula gives. The package \<^verbatim>\<open>('RUN', [15000, 1, 75])\<close> constructs a
  \<^verbatim>\<open>Running\<close> object, and its \<^verbatim>\<open>show_training_info()\<close> reports the type name
  \<^verbatim>\<open>Running\<close>, duration 1, distance 9.75, mean speed 9.75 and calories
  \<open>(18 * 9.75 - 20) * 75 / 1000 * 1 * 60 = 699.75\<close>.
\<close>

theorem running_sample_summary:
  "read_package ''RUN'' [15000, 1, 75] = Inr (Running 15000 1 75) \<and>
   show_training_info (Running 15000 1 75) =
     Inr \<lparr>training_type = ''Running'', duration = 1, distance = 9.75, speed = 9.75,
          calories = 699.75, MESSAGE = MESSAGE_default\<rparr> \<and>
   (18 * 9.75 - 20) * 75 / 1000 * 1 * 60 = (699.75 :: rat)"
  by (simp add: read_package_RUN show_training_info_def truediv_def get_distance_def
        class_constants)

text \<open>
  C1 as stated puts the calories of that record near 648.75. The record's calories are
  not within 1 of that value.
\<close>

theorem running_sample_calories_not_648_75:
  "\<not> (\<exists>m. show_training_info (Running 15000 1 75) = Inr m \<and> \<bar>calories m - 648.75\<bar> < 1)"
  by (simp add: show_training_info_def truediv_def get_distance_def class_constants)



text \<open>
  C3. For a \<^verbatim>\<open>Swimming\<close> object with a non-zero duration, \<^verbatim>\<open>get_mean_speed()\<close> is
  \<open>length_pool * count_pool / 1000 / duration\<close>, in which neither \<open>action\<close> nor
  \<^verbatim>\<open>get_distance()\<close> occurs, and \<^verbatim>\<open>get_spent_calories()\<close> is
  \<open>(speed + 1.1) * 2 * weight\<close>. For \<^verbatim>\<open>(720, 1, 80, 25, 40)\<close> the speed is 1 and the
  calories are 336.
\<close>

theorem swimming_speed_and_calories:
  "(\<forall>a d w lp cp. d \<noteq> 0 \<longrightarrow>
      get_mean_speed (Swimming a d w lp cp) = Inr (lp * cp / 1000 / d) \<and>
      get_spent_calories (Swimming a d w lp cp) = Inr ((lp * cp / 1000 / d + 1.1) * 2 * w)) \<and>
   get_mean_speed (Swimming 720 1 80 25 40) = Inr 1 \<and>
   get_spent_calories (Swimming 720 1 80 25 40) = Inr 336"
  by (simp add: truediv_def class_constants)

theorem swimming_speed_and_calories_witness:
  "(1 :: rat) \<noteq> 0 \<and>
   get_mean_speed (Swimming 720 1 80 25 40) = Inr (25 * 40 / 1000 / 1) \<and>
   get_spent_calories (Swimming 720 1 80 25 40) = Inr ((25 * 40 / 1000 / 1 + 1.1) * 2 * 80)"
  using swimming_speed_and_calories by (simp add: class_constants)

subsection \<open>The dispatcher's errors\<close>

text \<open>
  C4. \<^verbatim>\<open>read_package(code, data)\<close> raises the \<^verbatim>\<open>KeyError\<close> exactly when the code is
  none of \<^verbatim>\<open>SWM\<close>, \<^verbatim>\<open>RUN\<close>, \<^verbatim>\<open>WLK\<close>, whatever the data; the error's message
  starts with the code. So does \<^verbatim>\<open>read_package('XYZ', data)\<close>.
\<close>

theorem read_package_unknown_kind:
  "((\<exists>msg. read_package code data = Inl (KeyError msg))
      \<longleftrightarrow> code \<notin> {''SWM'', ''RUN'', ''WLK''}) \<and>
   (read_package code data = Inl (KeyError (code @ no_such_training))
      \<longleftrightarrow> code \<notin> {''SWM'', ''RUN'', ''WLK''}) \<and>
   read_package ''XYZ'' data = Inl (KeyError (''XYZ'' @ no_such_training))"
proof -
  have known: "\<forall>msg. read_package code data \<noteq> Inl (KeyError msg)"
    if "code \<in> {''SWM'', ''RUN'', ''WLK''}"
    using that
    by (auto simp: read_package_RUN read_package_WLK read_package_SWM
        new_Running_cases new_SportsWalking_cases new_Swimming_cases split: if_splits)
  have unknown: "read_package code data = Inl (KeyError (code @ no_such_training))"
    if "code \<notin> {''SWM'', ''RUN'', ''WLK''}"
    using that by (rule read_package_unknown)
  have xyz: "read_package ''XYZ'' data = Inl (KeyError (''XYZ'' @ no_such_training))"
    by (rule read_package_unknown) simp
  show ?thesis
  proof (cases "code \<in> {''SWM'', ''RUN'', ''WLK''}")
    case True
    with known [OF True] xyz show ?thesis
      by (auto simp: read_package_RUN read_package_WLK read_package_SWM
          new_Running_cases new_SportsWalking_cases new_Swimming_cases split: if_splits)
  next
    case False
    with unknown [OF False] show ?thesis
      using xyz by simp
  qed
qed

text \<open>
  C9. For each of the three codes, \<^verbatim>\<open>read_package\<close> fails with the arity error
  of the positional construction (Python's \<^verbatim>\<open>TypeError\<close>) exactly when the length
  of the data is not the number of the class's parameters: 3 for \<^verbatim>\<open>RUN\<close>, 4 for
  \<^verbatim>\<open>WLK\<close>, 5 for \<^verbatim>\<open>SWM\<close>.
\<close>

theorem read_package_arity:
  "(read_package ''RUN'' data = Inl TypeError \<longleftrightarrow> length data \<noteq> 3) \<and>
   (read_package ''WLK'' data = Inl TypeError \<longleftrightarrow> length data \<noteq> 4) \<and>
   (read_package ''SWM'' data = Inl TypeError \<longleftrightarrow> length data \<noteq> 5)"
  by (simp add: read_package_RUN read_package_WLK read_package_SWM
        new_Running_cases new_SportsWalking_cases new_Swimming_cases)

subsection \<open>Distance, speed and calories\<close>

lemma get_mean_speed_cases:
  "get_mean_speed t =
     (if training.duration t = 0 then Inl ZeroDivisionError
      else Inr (case t of
                  Swimming a d w lp cp \<Rightarrow> lp * cp / 1000 / d
                | _ \<Rightarrow> get_distance t / training.duration t))"
  by (cases t) (simp_all add: truediv_def M_IN_KM_def)




text \<open>
  C7. \<^verbatim>\<open>get_spent_calories()\<close> on an object of the base class raises
  \<^verbatim>\<open>NotImplementedError\<close>; on an object of any of the three subclasses it never
  does; and an object that \<^verbatim>\<open>read_package\<close> returns never raises it, neither from
  \<^verbatim>\<open>get_spent_calories()\<close> nor from \<^verbatim>\<open>show_training_info()\<close>.
\<close>

theorem not_implemented_only_on_base:
  "get_spent_calories (Training a d w) =
     Inl (NotImplementedError ''Method is implemented in children'') \<and>
   (\<forall>msg. get_spent_calories (Running a d w) \<noteq> Inl (NotImplementedError msg)) \<and>
   (\<forall>msg. get_spent_calories (SportsWalking a d w h) \<noteq> Inl (NotImplementedError msg)) \<and>
   (\<forall>msg. get_spent_calories (Swimming a d w lp cp) \<noteq> Inl (NotImplementedError msg)) \<and>
   (\<forall>code data t msg. read_package code data = Inr t \<longrightarrow>
      get_spent_calories t \<noteq> Inl (NotImplementedError msg) \<and>
      show_training_info t \<noteq> Inl (NotImplementedError msg))"
proof -
  have run: "get_spent_calories (Running a d w) \<noteq> Inl (NotImplementedError msg)"
    for a d w msg
    by (simp add: truediv_def)
  have wlk: "get_spent_calories (SportsWalking a d w h) \<noteq> Inl (NotImplementedError msg)"
    for a d w h msg
    by (simp add: truediv_def floordiv_def)
  have swm: "get_spent_calories (Swimming a d w lp cp) \<noteq> Inl (NotImplementedError msg)"
    for a d w lp cp msg
    by (simp add: truediv_def)
  have speed: "get_mean_speed t \<noteq> Inl (NotImplementedError msg)" for t msg
    by (simp add: get_mean_speed_cases)
  have info: "show_training_info t \<noteq> Inl (NotImplementedError msg)"
    if "get_spent_calories t \<noteq> Inl (NotImplementedError msg)" for t msg
    using that speed [of t msg]
    by (cases "get_mean_speed t"; cases "get_spent_calories t")
       (simp_all add: show_training_info_def)
  have made: "(\<exists>a d w. t = Running a d w) \<or> (\<exists>a d w h. t = SportsWalking a d w h)
      \<or> (\<exists>a d w lp cp. t = Swimming a d w lp cp)"
    if "read_package code data = Inr t" for code data t
  proof (cases "code \<in> {''SWM'', ''RUN'', ''WLK''}")
    case True
    with that show ?thesis
      by (auto simp: read_package_RUN read_package_WLK read_package_SWM
          new_Running_cases new_SportsWalking_cases new_Swimming_cases split: if_splits)
  next
    case False
    with that show ?thesis by (simp add: read_package_unknown)
  qed
  have disp: "get_spent_calories t \<noteq> Inl (NotImplementedError msg)"
    if "read_package code data = Inr t" for code data t msg
    using made [OF that] run wlk swm by metis
  show ?thesis
    using run wlk swm disp info by simp
qed

theorem not_implemented_only_on_base_witness:
  "read_package ''WLK'' [9000, 1, 75, 180] = Inr (SportsWalking 9000 1 75 180) \<and>
   get_spent_calories (SportsWalking 9000 1 75 180)
     \<noteq> Inl (NotImplementedError ''Method is implemented in children'') \<and>
   show_training_info (SportsWalking 9000 1 75 180)
     \<noteq> Inl (NotImplementedError ''Method is implemented in children'')"
proof -
  have made: "read_package ''WLK'' [9000, 1, 75, 180] = Inr (SportsWalking 9000 1 75 180)"
    by (simp add: read_package_WLK)
  from not_implemented_only_on_base [of 0 0 0 0 0 0] made show ?thesis
    by blast
qed

text \<open>
  C8. Whenever \<open>action\<close> is not negative, \<^verbatim>\<open>get_distance()\<close> is not negative,
  for every class; the distance is \<open>action * 0.65 / 1000\<close> for \<^verbatim>\<open>Running\<close> and
  \<^verbatim>\<open>SportsWalking\<close> and \<open>action * 1.38 / 1000\<close> for \<^verbatim>\<open>Swimming\<close>.
\<close>

theorem get_distance_nonneg:
  "(0 \<le> training.action t \<longrightarrow> 0 \<le> get_distance t) \<and>
   get_distance (Running a d w) = a * 0.65 / 1000 \<and>
   get_distance (SportsWalking a d w h) = a * 0.65 / 1000 \<and>
   get_distance (Swimming a d w lp cp) = a * 1.38 / 1000"
  by (cases t) (simp_all add: get_distance_def M_IN_KM_def)

theorem get_distance_nonneg_witness:
  "(0 :: rat) \<le> 720 \<and> 0 \<le> get_distance (Swimming 720 1 80 25 40) \<and>
   get_distance (Swimming 720 1 80 25 40) = 0.9936"
  using get_distance_nonneg [of "Swimming 720 1 80 25 40" 720 1 80 0 25 40]
  by simp

text \<open>
  C10. Every message object that \<^verbatim>\<open>show_training_info()\<close> builds for a
  \<^verbatim>\<open>Swimming\<close> object reports the distance \<open>action * 1.38 / 1000\<close>, in which the
  pool does not occur, while its speed times its duration is
  \<open>length_pool * count_pool / 1000\<close>; one is built whenever the duration is not 0. For
  \<^verbatim>\<open>(720, 1, 80, 25, 40)\<close> the two differ: 0.9936 against 1.
\<close>

theorem swimming_summary_distance:
  "(\<forall>a d w lp cp m. show_training_info (Swimming a d w lp cp) = Inr m \<longrightarrow>
      distance m = a * 1.38 / 1000 \<and> speed m * duration m = lp * cp / 1000) \<and>
   (\<forall>a d w lp cp. d \<noteq> 0 \<longrightarrow> (\<exists>m. show_training_info (Swimming a d w lp cp) = Inr m)) \<and>
   (\<exists>m. show_training_info (Swimming 720 1 80 25 40) = Inr m \<and>
        distance m = 0.9936 \<and> speed m * duration m = 1 \<and>
        distance m \<noteq> speed m * duration m)"
proof (intro conjI allI impI)
  fix a d w lp cp :: rat and m
  assume m: "show_training_info (Swimming a d w lp cp) = Inr m"
  then have d: "d \<noteq> 0"
    by (auto simp: show_training_info_def truediv_def split: if_splits)
  with m have "m = \<lparr>training_type = ''Swimming'', duration = d, distance = a * 1.38 / 1000,
      speed = lp * cp / 1000 / d, calories = (lp * cp / 1000 / d + 1.1) * 2 * w,
      MESSAGE = MESSAGE_default\<rparr>"
    by (simp add: show_training_info_def truediv_def get_distance_def class_constants)
  with d show "distance m = a * 1.38 / 1000" and "speed m * duration m = lp * cp / 1000"
    by simp_all
next
  fix a d w lp cp :: rat
  assume "d \<noteq> 0"
  then show "\<exists>m. show_training_info (Swimming a d w lp cp) = Inr m"
    by (simp add: show_training_info_def truediv_def)
next
  show "\<exists>m. show_training_info (Swimming 720 1 80 25 40) = Inr m \<and>
        distance m = 0.9936 \<and> speed m * duration m = 1 \<and>
        distance m \<noteq> speed m * duration m"
    by (simp add: show_training_info_def truediv_def get_distance_def class_constants)
qed

theorem swimming_summary_distance_witness:
  "\<exists>m. show_training_info (Swimming 720 1 80 25 40) = Inr m \<and>
       distance m = 720 * 1.38 / 1000 \<and> speed m * duration m = 25 * 40 / 1000 \<and>
       distance m \<noteq> speed m * duration m"
proof -
  from swimming_summary_distance obtain m where
    m: "show_training_info (Swimming 720 1 80 25 40) = Inr m" by blast
  with swimming_summary_distance have
    "distance m = 720 * 1.38 / 1000 \<and> speed m * duration m = 25 * 40 / 1000"
    by blast
  with m show ?thesis by simp
qed

subsection \<open>The message\<close>





















end
